theory Spec2Isabelle
  imports Main
begin

section \<open>The build starter of the scheduler (atc/scheduler/buildstarter.go)\<close>

text \<open>
  The build starter talks to its collaborators (storage, the readiness strategy of a build,
  the plan compiler, the logger and the metrics sink) through Go interfaces. An interface
  value is modelled as a record of its methods. A method that only reads a field of the
  object (\<open>ID\<close>, \<open>Name\<close>, \<open>IsAborted\<close>, \<open>RerunOf\<close>, \<open>IsManuallyTriggered\<close>, \<open>Paused\<close>) is a
  plain field. A method that reaches outside the process takes the history of collaborator
  calls made so far and answers from it, so its answer may change from one call to the
  next; every call made by the code is appended to that history. What the code did during
  a tick is therefore read off the history it returns.

  A Go function returning \<open>(v, error)\<close> is a pair whose second component is
  \<open>None\<close> for \<open>nil\<close>.
\<close>

subsection \<open>Errors, statuses and the history of collaborator calls\<close>

datatype error =
    Failure string
  | Errorf string error  \<comment> \<open>\<open>fmt.Errorf("<prefix>: %w", err)\<close>\<close>

datatype BuildStatus =
    BuildStatusPending
  | BuildStatusStarted
  | BuildStatusAborted
  | BuildStatusSucceeded
  | BuildStatusFailed
  | BuildStatusErrored

datatype event =
    LoggerSession string int string  \<comment> \<open>task, build-id, build-name\<close>
  | LoggerDebug string
  | LoggerError string error
  | JobGetPendingBuilds
  | PipelineCheckPaused
  | PipelineResourceTypes
  | JobScheduleBuild int
  | JobConfig
  | BuildIsReadyToDetermineInputs int
  | BuildBuildInputs int
  | BuildFinish int BuildStatus
  | BuildStart int
  | FactoryCreate int
  | MetricBuildsStartedInc

type_synonym history = "event list"

subsection \<open>The collaborators\<close>

record 'plan db_Build =
  ID :: int
  Name :: string
  IsManuallyTriggered :: bool
  RerunOf :: int
  IsAborted :: bool
  Finish :: "history \<Rightarrow> BuildStatus \<Rightarrow> error option"
  Start :: "history \<Rightarrow> 'plan \<Rightarrow> bool \<times> error option"

text \<open>
  The three wrappers \<open>constructBuilds\<close> puts around a pending build. Each embeds the
  \<open>db.Build\<close>, whose methods it inherits. The further fields of \<open>manualTriggerBuild\<close>
  (algorithm, job, job inputs, resources, related job ids) are the arguments of the tick
  itself; only the readiness methods read them.
\<close>

datatype 'plan Build =
    manualTriggerBuild "'plan db_Build"
  | rerunBuild "'plan db_Build"
  | schedulerBuild "'plan db_Build"

fun dbBuild :: "'plan Build \<Rightarrow> 'plan db_Build" where
  "dbBuild (manualTriggerBuild b) = b"
| "dbBuild (rerunBuild b) = b"
| "dbBuild (schedulerBuild b) = b"

text \<open>
  The methods \<open>IsReadyToDetermineInputs\<close> and \<open>BuildInputs\<close> of the three wrappers are
  declared by the interface \<open>Build\<close> of this file and implemented elsewhere; they are
  parameters here.
\<close>

record ('inp, 'plan) BuildMethods =
  IsReadyToDetermineInputs :: "'plan Build \<Rightarrow> history \<Rightarrow> bool"
  BuildInputs :: "'plan Build \<Rightarrow> history \<Rightarrow> 'inp list \<times> bool \<times> error option"

record ('rts, 'vrts) db_Pipeline =
  CheckPaused :: "history \<Rightarrow> bool \<times> error option"
  ResourceTypes :: "history \<Rightarrow> 'rts \<times> error option"
  Deserialize :: "'rts \<Rightarrow> 'vrts"

record ('cfg, 'plan) db_Job =
  Paused :: bool
  GetPendingBuilds :: "history \<Rightarrow> 'plan db_Build list \<times> error option"
  ScheduleBuild :: "history \<Rightarrow> 'plan Build \<Rightarrow> bool \<times> error option"
  Config :: "history \<Rightarrow> 'cfg \<times> error option"

record 'src db_Resource =
  ResourceName :: string
  ResourceType :: string
  ResourceSource :: 'src
  ResourceTags :: "string list"

record 'src ResourceConfig =
  ConfigName :: string
  ConfigType :: string
  ConfigSource :: 'src
  ConfigTags :: "string list"

record ('cfg, 'src, 'vrts, 'inp, 'plan) BuildFactory =
  Create :: "history \<Rightarrow> 'cfg \<Rightarrow> 'src ResourceConfig list \<Rightarrow> 'vrts \<Rightarrow> 'inp list
               \<Rightarrow> 'plan \<times> error option"

record ('cfg, 'src, 'vrts, 'inp, 'plan) buildStarter =
  factory :: "('cfg, 'src, 'vrts, 'inp, 'plan) BuildFactory"

subsection \<open>constructBuilds\<close>

definition wrapBuild :: "'plan db_Build \<Rightarrow> 'plan Build" where
  "wrapBuild nextPendingBuild =
     (if IsManuallyTriggered nextPendingBuild then manualTriggerBuild nextPendingBuild
      else if RerunOf nextPendingBuild \<noteq> 0 then rerunBuild nextPendingBuild
      else schedulerBuild nextPendingBuild)"

definition constructBuilds :: "'plan db_Build list \<Rightarrow> 'plan Build list" where
  "constructBuilds builds =
     foldl (\<lambda>buildsToSchedule nextPendingBuild. buildsToSchedule @ [wrapBuild nextPendingBuild])
       [] builds"

subsection \<open>tryStartNextPendingBuild\<close>

record startResults =
  aborted :: bool
  scheduled :: bool
  readyToDetermineInputs :: bool

definition zeroResults :: startResults where
  "zeroResults = \<lparr>aborted = False, scheduled = False, readyToDetermineInputs = False\<rparr>"

text \<open>The loop of lines 225 to 233, which copies each resource into a resource config.\<close>

definition resourceConfigsOf :: "'src db_Resource list \<Rightarrow> 'src ResourceConfig list" where
  "resourceConfigsOf resources =
     foldl (\<lambda>resourceConfigs v. resourceConfigs @
              [\<lparr>ConfigName = ResourceName v, ConfigType = ResourceType v,
                ConfigSource = ResourceSource v, ConfigTags = ResourceTags v\<rparr>])
       [] resources"

definition tryStartNextPendingBuild ::
  "('cfg, 'src, 'vrts, 'inp, 'plan) buildStarter \<Rightarrow> ('inp, 'plan) BuildMethods
     \<Rightarrow> ('rts, 'vrts) db_Pipeline \<Rightarrow> 'plan Build \<Rightarrow> ('cfg, 'plan) db_Job
     \<Rightarrow> 'src db_Resource list \<Rightarrow> history \<Rightarrow> (startResults \<times> error option) \<times> history"
where
  "tryStartNextPendingBuild s m pipeline nextPendingBuild job resources h =
    (let b = dbBuild nextPendingBuild;
         h = h @ [LoggerSession ''try-start-next-pending-build'' (ID b) (Name b)]
     in
     if IsAborted b then
       (let h = h @ [LoggerDebug ''cancel-aborted-pending-build''];
            err = Finish b h BuildStatusAborted;
            h = h @ [BuildFinish (ID b) BuildStatusAborted]
        in case err of
             Some e \<Rightarrow> ((zeroResults, Some (Errorf ''finish aborted build'' e)), h)
           | None \<Rightarrow> ((zeroResults\<lparr>aborted := True\<rparr>, None), h))
     else
     (let (pipelinePaused, err) = CheckPaused pipeline h;
          h = h @ [PipelineCheckPaused]
      in case err of
           Some e \<Rightarrow> ((zeroResults, Some (Errorf ''check pipeline paused'' e)), h)
         | None \<Rightarrow>
      if pipelinePaused then ((zeroResults, None), h @ [LoggerDebug ''pipeline-paused''])
      else if Paused job then ((zeroResults, None), h @ [LoggerDebug ''job-paused''])
      else
      (let (scheduled, err) = ScheduleBuild job h nextPendingBuild;
           h = h @ [JobScheduleBuild (ID b)]
       in case err of
            Some e \<Rightarrow> ((zeroResults, Some (Errorf ''schedule build'' e)), h)
          | None \<Rightarrow>
       if \<not> scheduled then
         ((zeroResults\<lparr>scheduled := scheduled\<rparr>, None), h @ [LoggerDebug ''build-not-scheduled''])
       else
       (let readyToDetermineInputs = IsReadyToDetermineInputs m nextPendingBuild h;
            h = h @ [BuildIsReadyToDetermineInputs (ID b)]
        in case err of  \<comment> \<open>line 193 tests the \<open>err\<close> of \<open>ScheduleBuild\<close> again\<close>
             Some e \<Rightarrow> ((zeroResults, Some (Errorf ''prepare inputs'' e)), h)
           | None \<Rightarrow>
        if \<not> readyToDetermineInputs then
          ((zeroResults\<lparr>scheduled := scheduled,
                         readyToDetermineInputs := readyToDetermineInputs\<rparr>, None), h)
        else
        (let (buildInputs, found, err) = BuildInputs m nextPendingBuild h;
             h = h @ [BuildBuildInputs (ID b)]
         in case err of
              Some e \<Rightarrow> ((zeroResults, Some (Errorf ''get build inputs'' e)), h)
            | None \<Rightarrow>
         if \<not> found then
           ((zeroResults\<lparr>scheduled := scheduled,
                          readyToDetermineInputs := readyToDetermineInputs\<rparr>, None),
            h @ [LoggerDebug ''build-inputs-not-found''])
         else
         (let (resourceTypes, err) = ResourceTypes pipeline h;
              h = h @ [PipelineResourceTypes]
          in case err of
               Some e \<Rightarrow> ((zeroResults, Some (Errorf ''find resource types'' e)), h)
             | None \<Rightarrow>
          (let resourceConfigs = resourceConfigsOf resources;
               (config, err) = Config job h;
               h = h @ [JobConfig]
           in case err of
                Some e \<Rightarrow> ((zeroResults, Some (Errorf ''config'' e)), h)
              | None \<Rightarrow>
           (let (plan, err) = Create (factory s) h config resourceConfigs
                                (Deserialize pipeline resourceTypes) buildInputs;
                h = h @ [FactoryCreate (ID b)]
            in case err of
                 Some e \<Rightarrow>
                   (let h = h @ [LoggerError ''failed-to-create-build-plan'' e];
                        err = Finish b h BuildStatusErrored;
                        h = h @ [BuildFinish (ID b) BuildStatusErrored]
                    in case err of
                         Some e \<Rightarrow>
                           ((zeroResults, Some (Errorf ''finish build'' e)),
                            h @ [LoggerError ''failed-to-mark-build-as-errored'' e])
                       | None \<Rightarrow> ((zeroResults, None), h))
               | None \<Rightarrow>
            (let (started, err) = Start b h plan;
                 h = h @ [BuildStart (ID b)]
             in case err of
                  Some e \<Rightarrow>
                    ((zeroResults, Some (Errorf ''start build'' e)),
                     h @ [LoggerError ''failed-to-mark-build-as-started'' e])
                | None \<Rightarrow>
             if \<not> started then
               (let err = Finish b h BuildStatusAborted;
                    h = h @ [BuildFinish (ID b) BuildStatusAborted]
                in case err of
                     Some e \<Rightarrow>
                       ((zeroResults, Some (Errorf ''finish build'' e)),
                        h @ [LoggerError ''failed-to-mark-build-as-finished'' e])
                   | None \<Rightarrow>
                       ((zeroResults\<lparr>scheduled := scheduled,
                                      readyToDetermineInputs := readyToDetermineInputs\<rparr>,
                         None), h))
             else
               ((zeroResults\<lparr>scheduled := scheduled,
                              readyToDetermineInputs := readyToDetermineInputs\<rparr>, None),
                h @ [MetricBuildsStartedInc]))))))))))"

subsection \<open>TryStartPendingBuildsForJob\<close>

text \<open>
  The loop over \<open>buildsToSchedule\<close>. It yields \<open>None\<close> when it runs off the end of the
  list and otherwise the \<open>return\<close> statement it left through, tagged with the line of that
  statement. The field \<open>needsRetry\<close> read at line 100 is not declared by \<open>startResults\<close>; it
  is a parameter.
\<close>

datatype returnSite = Line87 | Line95 | Line100

fun dispatchLoop ::
  "('cfg, 'src, 'vrts, 'inp, 'plan) buildStarter \<Rightarrow> ('inp, 'plan) BuildMethods
     \<Rightarrow> (startResults \<Rightarrow> bool)
     \<Rightarrow> ('rts, 'vrts) db_Pipeline \<Rightarrow> ('cfg, 'plan) db_Job \<Rightarrow> 'src db_Resource list
     \<Rightarrow> 'plan Build list \<Rightarrow> history
     \<Rightarrow> (returnSite \<times> bool \<times> error option) option \<times> history"
where
  "dispatchLoop s m needsRetry pipeline job resources [] h = (None, h)"
| "dispatchLoop s m needsRetry pipeline job resources (nextSchedulableBuild # rest) h =
    (let ((results, err), h) =
           tryStartNextPendingBuild s m pipeline nextSchedulableBuild job resources h
     in case err of
          Some e \<Rightarrow> (Some (Line87, False, Some e), h)
        | None \<Rightarrow>
     if aborted results then dispatchLoop s m needsRetry pipeline job resources rest h
     else if \<not> scheduled results \<or> \<not> readyToDetermineInputs results then
       (Some (Line95, True, None), h)
     else if scheduled results \<and> \<not> readyToDetermineInputs results
               \<and> RerunOf (dbBuild nextSchedulableBuild) = 0 then
       (Some (Line100, needsRetry results, None), h)
     else dispatchLoop s m needsRetry pipeline job resources rest h)"

definition TryStartPendingBuildsForJob ::
  "('cfg, 'src, 'vrts, 'inp, 'plan) buildStarter \<Rightarrow> ('inp, 'plan) BuildMethods
     \<Rightarrow> (startResults \<Rightarrow> bool)
     \<Rightarrow> ('rts, 'vrts) db_Pipeline \<Rightarrow> ('cfg, 'plan) db_Job \<Rightarrow> 'src db_Resource list
     \<Rightarrow> history \<Rightarrow> (bool \<times> error option) \<times> history"
where
  "TryStartPendingBuildsForJob s m needsRetry pipeline job resources h =
    (let (nextPendingBuilds, err) = GetPendingBuilds job h;
         h = h @ [JobGetPendingBuilds]
     in case err of
          Some e \<Rightarrow> ((False, Some (Errorf ''get pending builds'' e)), h)
        | None \<Rightarrow>
     (let buildsToSchedule = constructBuilds nextPendingBuilds
      in case dispatchLoop s m needsRetry pipeline job resources buildsToSchedule h of
           (Some (site, r), h) \<Rightarrow> (r, h)
         | (None, h) \<Rightarrow> ((False, None), h)))"

subsection \<open>Program points and path conditions\<close>

text \<open>
  The history grows by appending, so the calls made between two histories are the
  events the later one has beyond the earlier one.
\<close>

definition eventsSince :: "history \<Rightarrow> history \<Rightarrow> event list" where
  "eventsSince h h' = drop (length h) h'"

definition attemptsClaim :: "event \<Rightarrow> bool" where
  "attemptsClaim e = (case e of JobScheduleBuild _ \<Rightarrow> True | _ \<Rightarrow> False)"

definition writesStatus :: "event \<Rightarrow> bool" where
  "writesStatus e = (case e of BuildFinish _ _ \<Rightarrow> True | BuildStart _ \<Rightarrow> True | _ \<Rightarrow> False)"

definition invokesCompiler :: "event \<Rightarrow> bool" where
  "invokesCompiler e = (case e of FactoryCreate _ \<Rightarrow> True | _ \<Rightarrow> False)"

definition consultsPause :: "event \<Rightarrow> bool" where
  "consultsPause e = (case e of PipelineCheckPaused \<Rightarrow> True | _ \<Rightarrow> False)"

definition evaluates :: "int \<Rightarrow> event \<Rightarrow> bool" where
  "evaluates i e = (case e of LoggerSession _ j _ \<Rightarrow> i = j | _ \<Rightarrow> False)"

text \<open>
  The first event of every evaluation of a build by \<open>tryStartNextPendingBuild\<close>, and the
  history each collaborator sees when the evaluation that started at \<open>h\<close> calls it.
\<close>

definition session :: "'plan Build \<Rightarrow> event" where
  "session b =
     LoggerSession ''try-start-next-pending-build'' (ID (dbBuild b)) (Name (dbBuild b))"

definition atFinishAborted :: "history \<Rightarrow> 'plan Build \<Rightarrow> history" where
  "atFinishAborted h b = h @ [session b, LoggerDebug ''cancel-aborted-pending-build'']"

definition atCheckPaused :: "history \<Rightarrow> 'plan Build \<Rightarrow> history" where
  "atCheckPaused h b = h @ [session b]"

definition atScheduleBuild :: "history \<Rightarrow> 'plan Build \<Rightarrow> history" where
  "atScheduleBuild h b = atCheckPaused h b @ [PipelineCheckPaused]"

definition atIsReady :: "history \<Rightarrow> 'plan Build \<Rightarrow> history" where
  "atIsReady h b = atScheduleBuild h b @ [JobScheduleBuild (ID (dbBuild b))]"

definition atBuildInputs :: "history \<Rightarrow> 'plan Build \<Rightarrow> history" where
  "atBuildInputs h b = atIsReady h b @ [BuildIsReadyToDetermineInputs (ID (dbBuild b))]"

definition atResourceTypes :: "history \<Rightarrow> 'plan Build \<Rightarrow> history" where
  "atResourceTypes h b = atBuildInputs h b @ [BuildBuildInputs (ID (dbBuild b))]"

definition atConfig :: "history \<Rightarrow> 'plan Build \<Rightarrow> history" where
  "atConfig h b = atResourceTypes h b @ [PipelineResourceTypes]"

definition atCreate :: "history \<Rightarrow> 'plan Build \<Rightarrow> history" where
  "atCreate h b = atConfig h b @ [JobConfig]"

definition atFinishErrored :: "history \<Rightarrow> 'plan Build \<Rightarrow> error \<Rightarrow> history" where
  "atFinishErrored h b e =
     atCreate h b @ [FactoryCreate (ID (dbBuild b)), LoggerError ''failed-to-create-build-plan'' e]"

text \<open>
  The build is not aborted and nothing is paused: the evaluation reaches the scheduling
  claim.
\<close>

definition reachesClaim ::
  "('rts, 'vrts) db_Pipeline \<Rightarrow> ('cfg, 'plan) db_Job \<Rightarrow> 'plan Build \<Rightarrow> history \<Rightarrow> bool"
where
  "reachesClaim pipeline job b h \<longleftrightarrow>
     \<not> IsAborted (dbBuild b) \<and> CheckPaused pipeline (atCheckPaused h b) = (False, None)
       \<and> \<not> Paused job"

text \<open>The scheduling claim on the build succeeds.\<close>

definition claimed ::
  "('rts, 'vrts) db_Pipeline \<Rightarrow> ('cfg, 'plan) db_Job \<Rightarrow> 'plan Build \<Rightarrow> history \<Rightarrow> bool"
where
  "claimed pipeline job b h \<longleftrightarrow>
     reachesClaim pipeline job b h \<and> ScheduleBuild job (atScheduleBuild h b) b = (True, None)"

text \<open>The build is claimed and ready to determine its inputs.\<close>

definition claimedAndReady ::
  "('inp, 'plan) BuildMethods \<Rightarrow> ('rts, 'vrts) db_Pipeline \<Rightarrow> ('cfg, 'plan) db_Job
     \<Rightarrow> 'plan Build \<Rightarrow> history \<Rightarrow> bool"
where
  "claimedAndReady m pipeline job b h \<longleftrightarrow>
     claimed pipeline job b h \<and> IsReadyToDetermineInputs m b (atIsReady h b)"

text \<open>
  The inputs of the build are found and the resource types and the job's configuration are
  fetched: the evaluation reaches the plan compiler.
\<close>

definition reachesCompile ::
  "('inp, 'plan) BuildMethods \<Rightarrow> ('rts, 'vrts) db_Pipeline \<Rightarrow> ('cfg, 'plan) db_Job
     \<Rightarrow> 'plan Build \<Rightarrow> history \<Rightarrow> bool"
where
  "reachesCompile m pipeline job b h \<longleftrightarrow>
     claimedAndReady m pipeline job b h
       \<and> snd (BuildInputs m b (atBuildInputs h b)) = (True, None)
       \<and> snd (ResourceTypes pipeline (atResourceTypes h b)) = None
       \<and> snd (Config job (atConfig h b)) = None"

text \<open>What the plan compiler answers when the evaluation of the build calls it.\<close>

definition planCompilation ::
  "('cfg, 'src, 'vrts, 'inp, 'plan) buildStarter \<Rightarrow> ('inp, 'plan) BuildMethods
     \<Rightarrow> ('rts, 'vrts) db_Pipeline \<Rightarrow> 'plan Build \<Rightarrow> ('cfg, 'plan) db_Job
     \<Rightarrow> 'src db_Resource list \<Rightarrow> history \<Rightarrow> 'plan \<times> error option"
where
  "planCompilation s m pipeline b job resources h =
     Create (factory s) (atCreate h b)
       (fst (Config job (atConfig h b)))
       (resourceConfigsOf resources)
       (Deserialize pipeline (fst (ResourceTypes pipeline (atResourceTypes h b))))
       (fst (BuildInputs m b (atBuildInputs h b)))"

subsection \<open>Concrete collaborators\<close>

text \<open>
  Collaborators that answer the same at every call: a build with the given id, name,
  trigger kind, abort flag and answer to \<open>Finish\<close>; a pipeline with the given pause flag; a
  job with the given pause flag, pending builds and the ids whose scheduling claim
  succeeds; readiness methods given by the ids that are ready and the ids whose inputs are
  found; a plan compiler with the given answer.
\<close>

definition exampleBuild ::
  "int \<Rightarrow> string \<Rightarrow> bool \<Rightarrow> int \<Rightarrow> bool \<Rightarrow> error option \<Rightarrow> unit db_Build"
where
  "exampleBuild i n manual rerun ab finishErr =
     \<lparr>ID = i, Name = n, IsManuallyTriggered = manual, RerunOf = rerun, IsAborted = ab,
      Finish = (\<lambda>h st. finishErr), Start = (\<lambda>h plan. (True, None))\<rparr>"

definition examplePipeline :: "bool \<Rightarrow> (unit, unit) db_Pipeline" where
  "examplePipeline paused =
     \<lparr>CheckPaused = (\<lambda>h. (paused, None)), ResourceTypes = (\<lambda>h. ((), None)),
      Deserialize = (\<lambda>rts. rts)\<rparr>"

definition exampleJob ::
  "bool \<Rightarrow> (int \<Rightarrow> bool) \<Rightarrow> unit db_Build list \<times> error option \<Rightarrow> (unit, unit) db_Job"
where
  "exampleJob paused claim pending =
     \<lparr>Paused = paused, GetPendingBuilds = (\<lambda>h. pending),
      ScheduleBuild = (\<lambda>h b. (claim (ID (dbBuild b)), None)),
      Config = (\<lambda>h. ((), None))\<rparr>"

definition exampleMethods :: "(int \<Rightarrow> bool) \<Rightarrow> (int \<Rightarrow> bool) \<Rightarrow> (unit, unit) BuildMethods" where
  "exampleMethods ready found =
     \<lparr>IsReadyToDetermineInputs = (\<lambda>b h. ready (ID (dbBuild b))),
      BuildInputs = (\<lambda>b h. ([], found (ID (dbBuild b)), None))\<rparr>"

definition exampleStarter :: "error option \<Rightarrow> (unit, unit, unit, unit, unit) buildStarter" where
  "exampleStarter compileErr =
     \<lparr>factory = \<lparr>Create = (\<lambda>h config resourceConfigs resourceTypes buildInputs.
                                ((), compileErr))\<rparr>\<rparr>"

section \<open>Properties\<close>

subsection \<open>One evaluation of a build, path by path\<close>

lemmas programPoints =
  session_def atFinishAborted_def atCheckPaused_def atScheduleBuild_def atIsReady_def
  atBuildInputs_def atResourceTypes_def atConfig_def atCreate_def atFinishErrored_def

lemma tryStart_aborted:
  assumes "IsAborted (dbBuild b)"
  shows "tryStartNextPendingBuild s m pipeline b job resources h =
    (case Finish (dbBuild b) (atFinishAborted h b) BuildStatusAborted of
       Some e \<Rightarrow> ((zeroResults, Some (Errorf ''finish aborted build'' e)),
                  atFinishAborted h b @ [BuildFinish (ID (dbBuild b)) BuildStatusAborted])
     | None \<Rightarrow> ((zeroResults\<lparr>aborted := True\<rparr>, None),
                  atFinishAborted h b @ [BuildFinish (ID (dbBuild b)) BuildStatusAborted]))"
  using assms
  by (simp add: tryStartNextPendingBuild_def Let_def programPoints split: option.split)

lemma tryStart_paused:
  assumes "\<not> IsAborted (dbBuild b)"
    and "CheckPaused pipeline (atCheckPaused h b) = (paused, err)"
    and "paused \<or> Paused job"
  shows "tryStartNextPendingBuild s m pipeline b job resources h =
    (case err of
       Some e \<Rightarrow> ((zeroResults, Some (Errorf ''check pipeline paused'' e)), atScheduleBuild h b)
     | None \<Rightarrow> ((zeroResults, None),
         atScheduleBuild h b @ [LoggerDebug (if paused then ''pipeline-paused'' else ''job-paused'')]))"
  using assms
  by (auto simp add: tryStartNextPendingBuild_def Let_def programPoints split: option.split)

lemma tryStart_not_scheduled:
  assumes "reachesClaim pipeline job b h"
    and "ScheduleBuild job (atScheduleBuild h b) b = (False, None)"
  shows "tryStartNextPendingBuild s m pipeline b job resources h =
    ((zeroResults, None), atIsReady h b @ [LoggerDebug ''build-not-scheduled''])"
  using assms
  by (simp add: tryStartNextPendingBuild_def Let_def programPoints reachesClaim_def zeroResults_def)

lemma tryStart_not_ready:
  assumes "claimed pipeline job b h"
    and "\<not> IsReadyToDetermineInputs m b (atIsReady h b)"
  shows "tryStartNextPendingBuild s m pipeline b job resources h =
    ((zeroResults\<lparr>scheduled := True\<rparr>, None), atBuildInputs h b)"
  using assms
  by (simp add: tryStartNextPendingBuild_def Let_def programPoints reachesClaim_def claimed_def zeroResults_def)

lemma tryStart_not_found:
  assumes "claimedAndReady m pipeline job b h"
    and "snd (BuildInputs m b (atBuildInputs h b)) = (False, None)"
  shows "tryStartNextPendingBuild s m pipeline b job resources h =
    ((zeroResults\<lparr>scheduled := True, readyToDetermineInputs := True\<rparr>, None),
     atResourceTypes h b @ [LoggerDebug ''build-inputs-not-found''])"
proof -
  obtain inputs where "BuildInputs m b (atBuildInputs h b) = (inputs, False, None)"
    using assms(2) by (cases "BuildInputs m b (atBuildInputs h b)") simp
  with assms(1) show ?thesis
    by (simp add: tryStartNextPendingBuild_def Let_def programPoints reachesClaim_def
          claimed_def claimedAndReady_def zeroResults_def)
qed

lemma tryStart_compile_failed:
  assumes "reachesCompile m pipeline job b h"
    and "snd (planCompilation s m pipeline b job resources h) = Some e"
  shows "tryStartNextPendingBuild s m pipeline b job resources h =
    (case Finish (dbBuild b) (atFinishErrored h b e) BuildStatusErrored of
       Some e' \<Rightarrow> ((zeroResults, Some (Errorf ''finish build'' e')),
                   atFinishErrored h b e @ [BuildFinish (ID (dbBuild b)) BuildStatusErrored,
                                             LoggerError ''failed-to-mark-build-as-errored'' e'])
     | None \<Rightarrow> ((zeroResults, None),
                   atFinishErrored h b e @ [BuildFinish (ID (dbBuild b)) BuildStatusErrored]))"
proof -
  obtain inputs where i: "BuildInputs m b (atBuildInputs h b) = (inputs, True, None)"
    using assms(1) by (cases "BuildInputs m b (atBuildInputs h b)") (simp add: reachesCompile_def)
  obtain rts where r: "ResourceTypes pipeline (atResourceTypes h b) = (rts, None)"
    using assms(1) by (cases "ResourceTypes pipeline (atResourceTypes h b)") (simp add: reachesCompile_def)
  obtain cfg where c: "Config job (atConfig h b) = (cfg, None)"
    using assms(1) by (cases "Config job (atConfig h b)") (simp add: reachesCompile_def)
  obtain plan where p:
    "Create (factory s) (atCreate h b) cfg (resourceConfigsOf resources) (Deserialize pipeline rts) inputs
       = (plan, Some e)"
    using assms(2) i r c
    by (cases "Create (factory s) (atCreate h b) cfg (resourceConfigsOf resources) (Deserialize pipeline rts) inputs")
       (simp add: planCompilation_def)
  have path: "claimedAndReady m pipeline job b h"
    using assms(1) by (simp add: reachesCompile_def)
  show ?thesis
  proof (cases "Finish (dbBuild b) (atFinishErrored h b e) BuildStatusErrored")
    case None
    with path i r c p show ?thesis
      by (simp add: tryStartNextPendingBuild_def Let_def programPoints reachesClaim_def
            claimed_def claimedAndReady_def)
  next
    case (Some e')
    with path i r c p show ?thesis
      by (simp add: tryStartNextPendingBuild_def Let_def programPoints reachesClaim_def
            claimed_def claimedAndReady_def)
  qed
qed

text \<open>
  Every path of an evaluation that starts from a build that is not aborted: the result is
  not marked aborted, and the history is extended, first by the logger session.
\<close>

lemma tryStart_not_aborted_shape:
  assumes "\<not> IsAborted (dbBuild b)"
  shows "\<not> aborted (fst (fst (tryStartNextPendingBuild s m pipeline b job resources h)))
    \<and> (\<exists>evs. snd (tryStartNextPendingBuild s m pipeline b job resources h) =
               h @ session b # evs)"
  using assms
  by (simp add: tryStartNextPendingBuild_def Let_def zeroResults_def session_def
        split: prod.split option.split)

lemma tryStart_not_aborted_result:
  assumes "\<not> IsAborted (dbBuild b)"
  shows "\<not> aborted (fst (fst (tryStartNextPendingBuild s m pipeline b job resources h)))"
  using tryStart_not_aborted_shape [OF assms] by blast

lemma tryStart_history:
  "\<exists>evs. snd (tryStartNextPendingBuild s m pipeline b job resources h) = h @ session b # evs"
proof (cases "IsAborted (dbBuild b)")
  case True
  then show ?thesis
    by (simp add: tryStart_aborted atFinishAborted_def split: option.split)
next
  case False
  then show ?thesis
    using tryStart_not_aborted_shape by blast
qed

lemma tryStart_aborted_result:
  assumes "tryStartNextPendingBuild s m pipeline b job resources h = ((results, err), h')"
    and "aborted results"
  shows "\<not> scheduled results"
proof (cases "IsAborted (dbBuild b)")
  case True
  from tryStart_aborted [OF True, of s m pipeline job resources h] assms(1)
  show ?thesis
    by (auto simp add: zeroResults_def split: option.splits)
next
  case False
  from tryStart_not_aborted_result [OF False, of s m pipeline job resources h] assms
  show ?thesis by simp
qed

subsection \<open>The loop\<close>

lemma dispatchLoop_append:
  "dispatchLoop s m nr pipeline job resources (xs @ ys) h =
    (case dispatchLoop s m nr pipeline job resources xs h of
       (None, h') \<Rightarrow> dispatchLoop s m nr pipeline job resources ys h'
     | (Some r, h') \<Rightarrow> (Some r, h'))"
  by (induction xs arbitrary: h) (auto split: prod.splits option.splits)

lemma constructBuilds_map: "constructBuilds builds = map wrapBuild builds"
proof -
  have "foldl (\<lambda>acc b. acc @ [wrapBuild b]) acc builds = acc @ map wrapBuild builds" for acc
    by (induction builds arbitrary: acc) simp_all
  then show ?thesis by (simp add: constructBuilds_def)
qed

lemma dispatchLoop_stop:
  assumes "tryStartNextPendingBuild s m pipeline b job resources h = ((results, None), h')"
    and "\<not> aborted results"
    and "\<not> scheduled results \<or> \<not> readyToDetermineInputs results"
  shows "dispatchLoop s m needsRetry pipeline job resources (b # rest) h =
    (Some (Line95, True, None), h')"
  using assms by auto

lemma dispatchLoop_continue:
  assumes "tryStartNextPendingBuild s m pipeline b job resources h = ((results, None), h')"
    and "aborted results \<or> scheduled results \<and> readyToDetermineInputs results"
  shows "dispatchLoop s m needsRetry pipeline job resources (b # rest) h =
    dispatchLoop s m needsRetry pipeline job resources rest h'"
  using assms by auto

lemma tick_unfold:
  assumes "GetPendingBuilds job h0 = (pending, None)"
  shows "TryStartPendingBuildsForJob s m needsRetry pipeline job resources h0 =
    (case dispatchLoop s m needsRetry pipeline job resources (constructBuilds pending)
            (h0 @ [JobGetPendingBuilds]) of
       (Some (site, r), h) \<Rightarrow> (r, h)
     | (None, h) \<Rightarrow> ((False, None), h))"
  using assms by (simp add: TryStartPendingBuildsForJob_def)

lemma dispatchLoop_error_without_retry:
  "dispatchLoop s m needsRetry pipeline job resources builds h = (Some (site, retry, Some e), h')
     \<Longrightarrow> \<not> retry"
  by (induction builds arbitrary: h) (auto split: prod.splits option.splits if_splits)

lemma dispatchLoop_never_Line100:
  "dispatchLoop s m needsRetry pipeline job resources builds h \<noteq> (Some (Line100, r), h')"
  by (induction builds arbitrary: h) (auto split: prod.splits option.splits if_splits)

lemma dispatchLoop_needsRetry_irrelevant:
  "dispatchLoop s m needsRetry pipeline job resources builds h =
   dispatchLoop s m needsRetry' pipeline job resources builds h"
  by (induction builds arbitrary: h) (auto split: prod.splits option.splits if_splits)

text \<open>
  The history only grows, and the evaluation of the first build of the list is the first
  thing the loop records.
\<close>

lemma dispatchLoop_Cons_cases:
  assumes "tryStartNextPendingBuild s m pipeline b job resources h = ((results, err), h1)"
  shows "snd (dispatchLoop s m needsRetry pipeline job resources (b # rest) h) = h1
       \<or> dispatchLoop s m needsRetry pipeline job resources (b # rest) h =
           dispatchLoop s m needsRetry pipeline job resources rest h1"
  using assms by (auto split: option.splits)

lemma dispatchLoop_history_extends:
  "\<exists>evs. snd (dispatchLoop s m needsRetry pipeline job resources builds h) = h @ evs"
proof (induction builds arbitrary: h)
  case Nil
  show ?case by simp
next
  case (Cons b rest)
  obtain results err h1 where
    t: "tryStartNextPendingBuild s m pipeline b job resources h = ((results, err), h1)"
    by (metis prod.exhaust)
  obtain evs1 where h1: "h1 = h @ session b # evs1"
    using tryStart_history [of s m pipeline b job resources h] t by auto
  from dispatchLoop_Cons_cases [OF t, of needsRetry rest] show ?case
  proof
    assume "snd (dispatchLoop s m needsRetry pipeline job resources (b # rest) h) = h1"
    with h1 show ?thesis by simp
  next
    assume c: "dispatchLoop s m needsRetry pipeline job resources (b # rest) h =
           dispatchLoop s m needsRetry pipeline job resources rest h1"
    obtain evs2 where
      "snd (dispatchLoop s m needsRetry pipeline job resources rest h1) = h1 @ evs2"
      using Cons.IH by blast
    with c h1 show ?thesis by simp
  qed
qed

lemma dispatchLoop_evaluates_head:
  "\<exists>evs. snd (dispatchLoop s m needsRetry pipeline job resources (b # rest) h) =
          h @ session b # evs"
proof -
  obtain results err h1 where
    t: "tryStartNextPendingBuild s m pipeline b job resources h = ((results, err), h1)"
    by (metis prod.exhaust)
  obtain evs1 where h1: "h1 = h @ session b # evs1"
    using tryStart_history [of s m pipeline b job resources h] t by auto
  from dispatchLoop_Cons_cases [OF t, of needsRetry rest] show ?thesis
  proof
    assume "snd (dispatchLoop s m needsRetry pipeline job resources (b # rest) h) = h1"
    with h1 show ?thesis by simp
  next
    assume c: "dispatchLoop s m needsRetry pipeline job resources (b # rest) h =
           dispatchLoop s m needsRetry pipeline job resources rest h1"
    obtain evs2 where
      "snd (dispatchLoop s m needsRetry pipeline job resources rest h1) = h1 @ evs2"
      using dispatchLoop_history_extends by blast
    with c h1 show ?thesis by simp
  qed
qed

text \<open>
  A build that is claimed but not ready to determine its inputs stops the loop at line 95,
  whatever its kind: normal, manually triggered or re-run.
\<close>

lemma not_ready_build_stops_the_loop:
  assumes "claimed pipeline job b h"
    and "\<not> IsReadyToDetermineInputs m b (atIsReady h b)"
  shows "dispatchLoop s m needsRetry pipeline job resources (b # rest) h =
    (Some (Line95, True, None), atBuildInputs h b)"
  by (rule dispatchLoop_stop [OF tryStart_not_ready [OF assms]]) (simp_all add: zeroResults_def)

lemmas examples =
  exampleBuild_def examplePipeline_def exampleJob_def exampleMethods_def exampleStarter_def

lemma eventsSince_append: "eventsSince h (h @ evs) = evs"
  by (simp add: eventsSince_def)

lemmas eventKinds =
  attemptsClaim_def writesStatus_def invokesCompiler_def consultsPause_def evaluates_def

section \<open>The claims\<close>

text \<open>
  C4. A pending build whose abort flag is set is finished with status aborted: the
  evaluation logs, calls \<open>Finish\<close> with \<open>BuildStatusAborted\<close> and makes no other call. It
  returns \<open>{aborted: true}\<close> with no error, unless the finish write fails, in which case
  it returns the zero result and the wrapped error. When the write succeeds the loop goes
  on in the same tick: it runs off the end of the list when the aborted build is the last
  one, and otherwise the very next call it makes after the finish write is the logger
  session of the next pending build, that is, the next build is evaluated.
\<close>

theorem aborted_build_is_finished_and_skipped:
  assumes "IsAborted (dbBuild b)"
  shows
    "tryStartNextPendingBuild s m pipeline b job resources h =
       (case Finish (dbBuild b) (atFinishAborted h b) BuildStatusAborted of
          None \<Rightarrow> ((zeroResults\<lparr>aborted := True\<rparr>, None),
                    atFinishAborted h b @ [BuildFinish (ID (dbBuild b)) BuildStatusAborted])
        | Some e \<Rightarrow> ((zeroResults, Some (Errorf ''finish aborted build'' e)),
                    atFinishAborted h b @ [BuildFinish (ID (dbBuild b)) BuildStatusAborted]))
     \<and> (Finish (dbBuild b) (atFinishAborted h b) BuildStatusAborted = None \<longrightarrow>
          dispatchLoop s m needsRetry pipeline job resources (b # rest) h =
          dispatchLoop s m needsRetry pipeline job resources rest
            (atFinishAborted h b @ [BuildFinish (ID (dbBuild b)) BuildStatusAborted])
        \<and> dispatchLoop s m needsRetry pipeline job resources [b] h =
            (None, atFinishAborted h b @ [BuildFinish (ID (dbBuild b)) BuildStatusAborted])
        \<and> (\<exists>evs. snd (dispatchLoop s m needsRetry pipeline job resources (b # nxt # later) h) =
              h @ [session b, LoggerDebug ''cancel-aborted-pending-build'',
                   BuildFinish (ID (dbBuild b)) BuildStatusAborted, session nxt] @ evs)
        \<and> list_ex (evaluates (ID (dbBuild nxt)))
              (eventsSince
                 (atFinishAborted h b @ [BuildFinish (ID (dbBuild b)) BuildStatusAborted])
                 (snd (dispatchLoop s m needsRetry pipeline job resources (b # nxt # later) h))))"
proof -
  let ?h2 = "atFinishAborted h b @ [BuildFinish (ID (dbBuild b)) BuildStatusAborted]"
  have t: "tryStartNextPendingBuild s m pipeline b job resources h =
       (case Finish (dbBuild b) (atFinishAborted h b) BuildStatusAborted of
          None \<Rightarrow> ((zeroResults\<lparr>aborted := True\<rparr>, None), ?h2)
        | Some e \<Rightarrow> ((zeroResults, Some (Errorf ''finish aborted build'' e)), ?h2))"
    using assms by (simp add: tryStart_aborted split: option.split)
  have l: "dispatchLoop s m needsRetry pipeline job resources (b # xs) h =
      dispatchLoop s m needsRetry pipeline job resources xs ?h2"
    if "Finish (dbBuild b) (atFinishAborted h b) BuildStatusAborted = None" for xs
    using that by (simp add: t)
  have n: "\<exists>evs. snd (dispatchLoop s m needsRetry pipeline job resources (b # nxt # later) h) =
              h @ [session b, LoggerDebug ''cancel-aborted-pending-build'',
                   BuildFinish (ID (dbBuild b)) BuildStatusAborted, session nxt] @ evs"
    if f: "Finish (dbBuild b) (atFinishAborted h b) BuildStatusAborted = None"
  proof -
    obtain evs where
      "snd (dispatchLoop s m needsRetry pipeline job resources (nxt # later) ?h2) =
         ?h2 @ session nxt # evs"
      using dispatchLoop_evaluates_head by blast
    then show ?thesis
      by (simp add: l [OF f] atFinishAborted_def del: dispatchLoop.simps)
  qed
  have e: "list_ex (evaluates (ID (dbBuild nxt)))
      (eventsSince ?h2
         (snd (dispatchLoop s m needsRetry pipeline job resources (b # nxt # later) h)))"
    if f: "Finish (dbBuild b) (atFinishAborted h b) BuildStatusAborted = None"
  proof -
    obtain evs where
      "snd (dispatchLoop s m needsRetry pipeline job resources (nxt # later) ?h2) =
         ?h2 @ session nxt # evs"
      using dispatchLoop_evaluates_head by blast
    then have "eventsSince ?h2
        (snd (dispatchLoop s m needsRetry pipeline job resources (nxt # later) ?h2)) =
        session nxt # evs"
      by (simp only: eventsSince_append)
    then show ?thesis
      by (simp add: l [OF f] evaluates_def session_def del: dispatchLoop.simps)
  qed
  have o: "dispatchLoop s m needsRetry pipeline job resources [b] h = (None, ?h2)"
    if "Finish (dbBuild b) (atFinishAborted h b) BuildStatusAborted = None"
    using that by (simp add: t)
  show ?thesis
    using t l [of rest] o n e by (simp del: dispatchLoop.simps)
qed


theorem aborted_build_is_finished_and_skipped_witness:
  "IsAborted (dbBuild (schedulerBuild (exampleBuild 1 ''1'' False 0 True None)))
   \<and> tryStartNextPendingBuild (exampleStarter None) (exampleMethods (\<lambda>i. True) (\<lambda>i. True))
        (examplePipeline False) (schedulerBuild (exampleBuild 1 ''1'' False 0 True None))
        (exampleJob False (\<lambda>i. True) ([], None)) [] []
      = ((\<lparr>aborted = True, scheduled = False, readyToDetermineInputs = False\<rparr>, None),
         [LoggerSession ''try-start-next-pending-build'' 1 ''1'',
          LoggerDebug ''cancel-aborted-pending-build'',
          BuildFinish 1 BuildStatusAborted])
   \<and> dispatchLoop (exampleStarter None) (exampleMethods (\<lambda>i. True) (\<lambda>i. True)) (\<lambda>r. False)
        (examplePipeline False) (exampleJob False (\<lambda>i. True) ([], None)) []
        [schedulerBuild (exampleBuild 1 ''1'' False 0 True None),
         schedulerBuild (exampleBuild 2 ''2'' False 0 False None)] []
      = (None,
         [LoggerSession ''try-start-next-pending-build'' 1 ''1'',
          LoggerDebug ''cancel-aborted-pending-build'',
          BuildFinish 1 BuildStatusAborted,
          LoggerSession ''try-start-next-pending-build'' 2 ''2'', PipelineCheckPaused,
          JobScheduleBuild 2, BuildIsReadyToDetermineInputs 2, BuildBuildInputs 2,
          PipelineResourceTypes, JobConfig, FactoryCreate 2, BuildStart 2,
          MetricBuildsStartedInc])"
proof -
  let ?b1 = "schedulerBuild (exampleBuild 1 ''1'' False 0 True None)"
  let ?b2 = "schedulerBuild (exampleBuild 2 ''2'' False 0 False None)"
  let ?s = "exampleStarter None"
  let ?m = "exampleMethods (\<lambda>i. True) (\<lambda>i. True)"
  let ?job = "exampleJob False (\<lambda>i. True) ([], None)"
  let ?h2 = "[LoggerSession ''try-start-next-pending-build'' 1 ''1'',
          LoggerDebug ''cancel-aborted-pending-build'',
          BuildFinish 1 BuildStatusAborted]"
  have a: "IsAborted (dbBuild ?b1)"
    by (simp add: exampleBuild_def)
  have f: "Finish (dbBuild ?b1) (atFinishAborted [] ?b1) BuildStatusAborted = None"
    by (simp add: exampleBuild_def)
  have p: "atFinishAborted [] ?b1 @ [BuildFinish (ID (dbBuild ?b1)) BuildStatusAborted] = ?h2"
    by (simp add: programPoints exampleBuild_def)
  note u = aborted_build_is_finished_and_skipped
    [OF a, where s = ?s and m = ?m and pipeline = "examplePipeline False" and job = ?job
       and resources = "[]" and h = "[]" and needsRetry = "\<lambda>r. False" and rest = "[?b2]"
       and nxt = ?b2 and later = "[]"]
  have t: "tryStartNextPendingBuild ?s ?m (examplePipeline False) ?b1 ?job [] [] =
      ((zeroResults\<lparr>aborted := True\<rparr>, None), ?h2)"
    using u f p by (simp del: dispatchLoop.simps)
  have l: "dispatchLoop ?s ?m (\<lambda>r. False) (examplePipeline False) ?job [] [?b1, ?b2] [] =
      dispatchLoop ?s ?m (\<lambda>r. False) (examplePipeline False) ?job [] [?b2] ?h2"
    using u f p by (simp del: dispatchLoop.simps)
  have n: "dispatchLoop ?s ?m (\<lambda>r. False) (examplePipeline False) ?job [] [?b2] ?h2 =
      (None,
         [LoggerSession ''try-start-next-pending-build'' 1 ''1'',
          LoggerDebug ''cancel-aborted-pending-build'',
          BuildFinish 1 BuildStatusAborted,
          LoggerSession ''try-start-next-pending-build'' 2 ''2'', PipelineCheckPaused,
          JobScheduleBuild 2, BuildIsReadyToDetermineInputs 2, BuildBuildInputs 2,
          PipelineResourceTypes, JobConfig, FactoryCreate 2, BuildStart 2,
          MetricBuildsStartedInc])"
    by (simp add: tryStartNextPendingBuild_def Let_def examples zeroResults_def)
  from a show ?thesis
    by (simp only: t l n zeroResults_def simp_thms startResults.simps)
qed

text \<open>
  C10. The abort check precedes the pause checks. For a pending build whose abort flag is
  set, the evaluation makes exactly three calls (the logger session, the debug line and
  \<open>Finish\<close> with \<open>BuildStatusAborted\<close>): neither \<open>CheckPaused\<close> nor \<open>ScheduleBuild\<close> is called,
  and the outcome is the same for every pipeline and every job, paused or not. It returns
  \<open>{aborted: true}\<close> with no error when the finish write succeeds, and the zero result
  with the wrapped error when the write fails.
\<close>

theorem abort_check_precedes_pause_checks:
  assumes "IsAborted (dbBuild b)"
  shows
    "snd (tryStartNextPendingBuild s m pipeline b job resources h) =
       h @ [session b, LoggerDebug ''cancel-aborted-pending-build'',
            BuildFinish (ID (dbBuild b)) BuildStatusAborted]
     \<and> \<not> list_ex (\<lambda>e. consultsPause e \<or> attemptsClaim e)
           (eventsSince h (snd (tryStartNextPendingBuild s m pipeline b job resources h)))
     \<and> tryStartNextPendingBuild s m pipeline b job resources h =
         tryStartNextPendingBuild s' m' pipeline' b job' resources' h
     \<and> fst (tryStartNextPendingBuild s m pipeline b job resources h) =
         (case Finish (dbBuild b) (atFinishAborted h b) BuildStatusAborted of
            None \<Rightarrow> (zeroResults\<lparr>aborted := True\<rparr>, None)
          | Some e \<Rightarrow> (zeroResults, Some (Errorf ''finish aborted build'' e)))"
  using assms
  by (simp add: tryStart_aborted atFinishAborted_def eventsSince_append eventKinds session_def
        split: option.split)

theorem abort_check_precedes_pause_checks_witness:
  "IsAborted (dbBuild (schedulerBuild (exampleBuild 1 ''1'' False 0 True None)))
   \<and> Paused (exampleJob True (\<lambda>i. True) ([], None))
   \<and> CheckPaused (examplePipeline True) [] = (True, None)
   \<and> tryStartNextPendingBuild (exampleStarter None) (exampleMethods (\<lambda>i. True) (\<lambda>i. True))
        (examplePipeline True) (schedulerBuild (exampleBuild 1 ''1'' False 0 True None))
        (exampleJob True (\<lambda>i. True) ([], None)) [] []
      = ((\<lparr>aborted = True, scheduled = False, readyToDetermineInputs = False\<rparr>, None),
         [LoggerSession ''try-start-next-pending-build'' 1 ''1'',
          LoggerDebug ''cancel-aborted-pending-build'',
          BuildFinish 1 BuildStatusAborted])"
  using abort_check_precedes_pause_checks
    [of "schedulerBuild (exampleBuild 1 ''1'' False 0 True None)"
        "exampleStarter None" "exampleMethods (\<lambda>i. True) (\<lambda>i. True)"
        "examplePipeline True" "exampleJob True (\<lambda>i. True) ([], None)" "[]" "[]"
        "exampleStarter None" "exampleMethods (\<lambda>i. True) (\<lambda>i. True)"
        "examplePipeline True" "exampleJob True (\<lambda>i. True) ([], None)" "[]"]
  by (simp add: examples programPoints zeroResults_def prod_eq_iff)

text \<open>
  C10 as first stated, without the proviso on the finish write, fails: an aborted build
  whose \<open>Finish\<close> fails gets the zero result and an error, not \<open>{aborted: true}\<close>.
\<close>

theorem abort_with_failed_finish_counterexample:
  "IsAborted (dbBuild (schedulerBuild
      (exampleBuild 1 ''1'' False 0 True (Some (Failure ''storage unreachable'')))))
   \<and> fst (tryStartNextPendingBuild (exampleStarter None)
          (exampleMethods (\<lambda>i. True) (\<lambda>i. True)) (examplePipeline True)
          (schedulerBuild
            (exampleBuild 1 ''1'' False 0 True (Some (Failure ''storage unreachable''))))
          (exampleJob True (\<lambda>i. True) ([], None)) [] [])
      = (\<lparr>aborted = False, scheduled = False, readyToDetermineInputs = False\<rparr>,
         Some (Errorf ''finish aborted build'' (Failure ''storage unreachable'')))"
  by (simp add: tryStartNextPendingBuild_def Let_def examples zeroResults_def)

text \<open>
  C5. For a build that is not aborted, when the pipeline is paused (\<open>CheckPaused\<close> answers
  true without error) or the job is paused, the evaluation returns the zero result, makes
  no scheduling claim and writes no build status (no \<open>Finish\<close>, no \<open>Start\<close>). When the pause
  check itself did not fail, the error is nil and the only calls are the logger session,
  \<open>CheckPaused\<close> and one debug line.
\<close>

theorem paused_build_is_left_pending:
  assumes "\<not> IsAborted (dbBuild b)"
    and "CheckPaused pipeline (atCheckPaused h b) = (True, None) \<or> Paused job"
  shows
    "fst (fst (tryStartNextPendingBuild s m pipeline b job resources h)) = zeroResults
     \<and> \<not> list_ex (\<lambda>e. attemptsClaim e \<or> writesStatus e)
           (eventsSince h (snd (tryStartNextPendingBuild s m pipeline b job resources h)))
     \<and> (snd (CheckPaused pipeline (atCheckPaused h b)) = None \<longrightarrow>
          tryStartNextPendingBuild s m pipeline b job resources h =
            ((zeroResults, None),
             h @ [session b, PipelineCheckPaused,
                  LoggerDebug (if fst (CheckPaused pipeline (atCheckPaused h b))
                               then ''pipeline-paused'' else ''job-paused'')]))"
proof -
  obtain paused err where c: "CheckPaused pipeline (atCheckPaused h b) = (paused, err)"
    by (cases "CheckPaused pipeline (atCheckPaused h b)")
  with assms(2) have "paused \<or> Paused job" by auto
  then have r: "tryStartNextPendingBuild s m pipeline b job resources h =
      (case err of
         Some e \<Rightarrow> ((zeroResults, Some (Errorf ''check pipeline paused'' e)), atScheduleBuild h b)
       | None \<Rightarrow> ((zeroResults, None),
           atScheduleBuild h b @
             [LoggerDebug (if paused then ''pipeline-paused'' else ''job-paused'')]))"
    using assms(1) c by (rule_tac tryStart_paused)
  show ?thesis
    by (cases err)
       (simp_all add: r c c [unfolded atCheckPaused_def session_def] atScheduleBuild_def atCheckPaused_def eventsSince_append eventKinds
          session_def)
qed

theorem paused_build_is_left_pending_witness:
  "\<not> IsAborted (dbBuild (schedulerBuild (exampleBuild 1 ''1'' False 0 False None)))
   \<and> Paused (exampleJob True (\<lambda>i. True) ([], None))
   \<and> tryStartNextPendingBuild (exampleStarter None) (exampleMethods (\<lambda>i. True) (\<lambda>i. True))
        (examplePipeline False) (schedulerBuild (exampleBuild 1 ''1'' False 0 False None))
        (exampleJob True (\<lambda>i. True) ([], None)) [] []
      = ((\<lparr>aborted = False, scheduled = False, readyToDetermineInputs = False\<rparr>, None),
         [LoggerSession ''try-start-next-pending-build'' 1 ''1'', PipelineCheckPaused,
          LoggerDebug ''job-paused''])"
  using paused_build_is_left_pending
    [of "schedulerBuild (exampleBuild 1 ''1'' False 0 False None)"
        "examplePipeline False" "[]" "exampleJob True (\<lambda>i. True) ([], None)"
        "exampleStarter None" "exampleMethods (\<lambda>i. True) (\<lambda>i. True)" "[]"]
  by (simp add: examples programPoints zeroResults_def)

text \<open>
  C6. Let the pending builds, once wrapped, be \<open>before @ b # later\<close>, let the loop run
  through \<open>before\<close> without returning, and let the evaluation of \<open>b\<close> reach the scheduling
  claim and lose it (\<open>ScheduleBuild\<close> answers false without error). Then the evaluation of
  \<open>b\<close> returns \<open>{scheduled: false}\<close> with nil error, and the tick returns \<open>(true, nil)\<close> with a
  history that ends with the evaluation of \<open>b\<close>: no call is made for any build of \<open>later\<close>.
\<close>

theorem lost_claim_stops_the_tick:
  assumes "GetPendingBuilds job h0 = (pending, None)"
    and "constructBuilds pending = before @ b # later"
    and "dispatchLoop s m needsRetry pipeline job resources before (h0 @ [JobGetPendingBuilds])
           = (None, h)"
    and "reachesClaim pipeline job b h"
    and "ScheduleBuild job (atScheduleBuild h b) b = (False, None)"
  shows
    "tryStartNextPendingBuild s m pipeline b job resources h =
       ((zeroResults\<lparr>scheduled := False\<rparr>, None),
        h @ [session b, PipelineCheckPaused, JobScheduleBuild (ID (dbBuild b)),
             LoggerDebug ''build-not-scheduled''])
     \<and> TryStartPendingBuildsForJob s m needsRetry pipeline job resources h0 =
       ((True, None),
        h @ [session b, PipelineCheckPaused, JobScheduleBuild (ID (dbBuild b)),
             LoggerDebug ''build-not-scheduled''])"
proof -
  have t: "tryStartNextPendingBuild s m pipeline b job resources h =
       ((zeroResults, None),
        h @ [session b, PipelineCheckPaused, JobScheduleBuild (ID (dbBuild b)),
             LoggerDebug ''build-not-scheduled''])"
    using tryStart_not_scheduled [OF assms(4,5)] by (simp add: programPoints)
  have "dispatchLoop s m needsRetry pipeline job resources (b # later) h =
       (Some (Line95, True, None),
        h @ [session b, PipelineCheckPaused, JobScheduleBuild (ID (dbBuild b)),
             LoggerDebug ''build-not-scheduled''])"
    by (rule dispatchLoop_stop [OF t]) (simp_all add: zeroResults_def)
  then have "dispatchLoop s m needsRetry pipeline job resources (before @ b # later)
       (h0 @ [JobGetPendingBuilds]) =
       (Some (Line95, True, None),
        h @ [session b, PipelineCheckPaused, JobScheduleBuild (ID (dbBuild b)),
             LoggerDebug ''build-not-scheduled''])"
    using assms(3) by (simp add: dispatchLoop_append)
  then show ?thesis
    using t assms(1,2) by (simp add: tick_unfold zeroResults_def)
qed

theorem lost_claim_stops_the_tick_witness:
  "GetPendingBuilds
     (exampleJob False (\<lambda>i. i \<noteq> 2)
        ([exampleBuild 1 ''1'' False 0 False None, exampleBuild 2 ''2'' False 0 False None,
          exampleBuild 3 ''3'' False 0 False None], None)) []
   = ([exampleBuild 1 ''1'' False 0 False None, exampleBuild 2 ''2'' False 0 False None,
       exampleBuild 3 ''3'' False 0 False None], None)
   \<and> constructBuilds
        [exampleBuild 1 ''1'' False 0 False None, exampleBuild 2 ''2'' False 0 False None,
         exampleBuild 3 ''3'' False 0 False None]
      = [schedulerBuild (exampleBuild 1 ''1'' False 0 False None)]
        @ schedulerBuild (exampleBuild 2 ''2'' False 0 False None)
        # [schedulerBuild (exampleBuild 3 ''3'' False 0 False None)]
   \<and> TryStartPendingBuildsForJob (exampleStarter None)
        (exampleMethods (\<lambda>i. True) (\<lambda>i. True)) (\<lambda>r. False) (examplePipeline False)
        (exampleJob False (\<lambda>i. i \<noteq> 2)
          ([exampleBuild 1 ''1'' False 0 False None, exampleBuild 2 ''2'' False 0 False None,
            exampleBuild 3 ''3'' False 0 False None], None)) [] []
      = ((True, None),
         [JobGetPendingBuilds,
          LoggerSession ''try-start-next-pending-build'' 1 ''1'', PipelineCheckPaused,
          JobScheduleBuild 1, BuildIsReadyToDetermineInputs 1, BuildBuildInputs 1,
          PipelineResourceTypes, JobConfig, FactoryCreate 1, BuildStart 1,
          MetricBuildsStartedInc,
          LoggerSession ''try-start-next-pending-build'' 2 ''2'', PipelineCheckPaused,
          JobScheduleBuild 2, LoggerDebug ''build-not-scheduled''])"
proof -
  let ?b1 = "exampleBuild 1 ''1'' False 0 False None"
  let ?b2 = "exampleBuild 2 ''2'' False 0 False None"
  let ?b3 = "exampleBuild 3 ''3'' False 0 False None"
  let ?job = "exampleJob False (\<lambda>i. i \<noteq> 2) ([?b1, ?b2, ?b3], None)"
  let ?h = "[JobGetPendingBuilds,
          LoggerSession ''try-start-next-pending-build'' 1 ''1'', PipelineCheckPaused,
          JobScheduleBuild 1, BuildIsReadyToDetermineInputs 1, BuildBuildInputs 1,
          PipelineResourceTypes, JobConfig, FactoryCreate 1, BuildStart 1,
          MetricBuildsStartedInc]"
  have g: "GetPendingBuilds ?job [] = ([?b1, ?b2, ?b3], None)"
    by (simp add: exampleJob_def)
  have c: "constructBuilds [?b1, ?b2, ?b3] =
      [schedulerBuild ?b1] @ schedulerBuild ?b2 # [schedulerBuild ?b3]"
    by (simp add: constructBuilds_def wrapBuild_def exampleBuild_def)
  have l: "dispatchLoop (exampleStarter None) (exampleMethods (\<lambda>i. True) (\<lambda>i. True))
      (\<lambda>r. False) (examplePipeline False) ?job [] [schedulerBuild ?b1]
      ([] @ [JobGetPendingBuilds]) = (None, ?h)"
    by (simp add: tryStartNextPendingBuild_def Let_def examples zeroResults_def)
  have r: "reachesClaim (examplePipeline False) ?job (schedulerBuild ?b2) ?h"
    by (simp add: reachesClaim_def examples)
  have n: "ScheduleBuild ?job (atScheduleBuild ?h (schedulerBuild ?b2)) (schedulerBuild ?b2)
      = (False, None)"
    by (simp add: examples)
  from lost_claim_stops_the_tick [OF g c l r n] g c show ?thesis
    by (simp add: session_def exampleBuild_def)
qed

text \<open>
  C3. For a job whose only pending build is a normal build (not manually triggered, not a
  re-run) that is claimed but not ready to determine its inputs, the tick returns
  \<open>needsRetry = true\<close> and a nil error. Its calls are the enumeration, the logger session,
  the pause check, the successful claim and the readiness check: the build is claimed,
  \<open>Start\<close> and \<open>Finish\<close> are never called on it, and nothing else is evaluated.
\<close>

theorem normal_build_not_ready_stays_pending:
  assumes "GetPendingBuilds job h0 = ([d], None)"
    and "\<not> IsManuallyTriggered d"
    and "RerunOf d = 0"
    and "claimed pipeline job (schedulerBuild d) (h0 @ [JobGetPendingBuilds])"
    and "\<not> IsReadyToDetermineInputs m (schedulerBuild d)
            (atIsReady (h0 @ [JobGetPendingBuilds]) (schedulerBuild d))"
  shows
    "TryStartPendingBuildsForJob s m needsRetry pipeline job resources h0 =
       ((True, None),
        h0 @ [JobGetPendingBuilds, session (schedulerBuild d), PipelineCheckPaused,
              JobScheduleBuild (ID d), BuildIsReadyToDetermineInputs (ID d)])
     \<and> \<not> list_ex writesStatus
           (eventsSince h0
              (snd (TryStartPendingBuildsForJob s m needsRetry pipeline job resources h0)))"
proof -
  let ?h = "h0 @ [JobGetPendingBuilds]"
  let ?b = "schedulerBuild d"
  have w: "constructBuilds [d] = [?b]"
    using assms(2,3) by (simp add: constructBuilds_def wrapBuild_def)
  have t: "tryStartNextPendingBuild s m pipeline ?b job resources ?h =
      ((zeroResults\<lparr>scheduled := True\<rparr>, None), atBuildInputs ?h ?b)"
    using assms(4,5) by (rule tryStart_not_ready)
  have "dispatchLoop s m needsRetry pipeline job resources [?b] ?h =
      (Some (Line95, True, None), atBuildInputs ?h ?b)"
    by (rule dispatchLoop_stop [OF t]) (simp_all add: zeroResults_def)
  then have r: "TryStartPendingBuildsForJob s m needsRetry pipeline job resources h0 =
      ((True, None),
        h0 @ [JobGetPendingBuilds, session (schedulerBuild d), PipelineCheckPaused,
              JobScheduleBuild (ID d), BuildIsReadyToDetermineInputs (ID d)])"
    using assms(1) w by (simp add: tick_unfold programPoints)
  show ?thesis
    by (simp add: r eventsSince_append eventKinds session_def)
qed

theorem normal_build_not_ready_stays_pending_witness:
  "TryStartPendingBuildsForJob (exampleStarter None)
     (exampleMethods (\<lambda>i. False) (\<lambda>i. True)) (\<lambda>r. False) (examplePipeline False)
     (exampleJob False (\<lambda>i. True) ([exampleBuild 1 ''1'' False 0 False None], None)) [] []
   = ((True, None),
      [JobGetPendingBuilds, LoggerSession ''try-start-next-pending-build'' 1 ''1'',
       PipelineCheckPaused, JobScheduleBuild 1, BuildIsReadyToDetermineInputs 1])"
proof -
  let ?d = "exampleBuild 1 ''1'' False 0 False None"
  let ?job = "exampleJob False (\<lambda>i. True) ([?d], None)"
  have 1: "GetPendingBuilds ?job [] = ([?d], None)"
    by (simp add: exampleJob_def)
  have 2: "\<not> IsManuallyTriggered ?d" and 3: "RerunOf ?d = 0"
    by (simp_all add: exampleBuild_def)
  have 4: "claimed (examplePipeline False) ?job (schedulerBuild ?d) ([] @ [JobGetPendingBuilds])"
    by (simp add: claimed_def reachesClaim_def examples)
  have 5: "\<not> IsReadyToDetermineInputs (exampleMethods (\<lambda>i. False) (\<lambda>i. True))
      (schedulerBuild ?d) (atIsReady ([] @ [JobGetPendingBuilds]) (schedulerBuild ?d))"
    by (simp add: exampleMethods_def)
  from normal_build_not_ready_stays_pending
         [OF 1 2 3 4 5, where s = "exampleStarter None" and needsRetry = "\<lambda>r. False"
            and resources = "[]"]
  show ?thesis
    by (simp add: session_def exampleBuild_def)
qed

text \<open>
  C7. For a claimed, ready build whose input resolution reports not-found without error,
  the evaluation returns \<open>{scheduled: true, readyToDetermineInputs: true}\<close> with nil error.
  It never calls the plan compiler and writes no status (no \<open>Finish\<close>, no \<open>Start\<close>). The
  loop neither returns an error nor stops at this build: it goes on to the builds behind
  it, and runs off the end of the list when there are none, so that the tick of a job
  with this build alone returns \<open>(false, nil)\<close>.
\<close>

theorem unsatisfiable_inputs_leave_build_pending:
  assumes "claimedAndReady m pipeline job b h"
    and "snd (BuildInputs m b (atBuildInputs h b)) = (False, None)"
  shows
    "tryStartNextPendingBuild s m pipeline b job resources h =
       ((zeroResults\<lparr>scheduled := True, readyToDetermineInputs := True\<rparr>, None),
        h @ [session b, PipelineCheckPaused, JobScheduleBuild (ID (dbBuild b)),
             BuildIsReadyToDetermineInputs (ID (dbBuild b)), BuildBuildInputs (ID (dbBuild b)),
             LoggerDebug ''build-inputs-not-found''])
     \<and> \<not> list_ex (\<lambda>e. invokesCompiler e \<or> writesStatus e)
           (eventsSince h (snd (tryStartNextPendingBuild s m pipeline b job resources h)))
     \<and> dispatchLoop s m needsRetry pipeline job resources (b # rest) h =
         dispatchLoop s m needsRetry pipeline job resources rest
           (snd (tryStartNextPendingBuild s m pipeline b job resources h))
     \<and> dispatchLoop s m needsRetry pipeline job resources [b] h =
         (None, snd (tryStartNextPendingBuild s m pipeline b job resources h))"
proof -
  have t: "tryStartNextPendingBuild s m pipeline b job resources h =
      ((zeroResults\<lparr>scheduled := True, readyToDetermineInputs := True\<rparr>, None),
       h @ [session b, PipelineCheckPaused, JobScheduleBuild (ID (dbBuild b)),
             BuildIsReadyToDetermineInputs (ID (dbBuild b)), BuildBuildInputs (ID (dbBuild b)),
             LoggerDebug ''build-inputs-not-found''])"
    using tryStart_not_found [OF assms] by (simp add: programPoints)
  have c: "dispatchLoop s m needsRetry pipeline job resources (b # xs) h =
      dispatchLoop s m needsRetry pipeline job resources xs
        (snd (tryStartNextPendingBuild s m pipeline b job resources h))" for xs
    by (simp add: t zeroResults_def)
  show ?thesis
    using c [of rest] c [of "[]"]
    by (simp add: t eventsSince_append eventKinds session_def)
qed

theorem unsatisfiable_inputs_leave_build_pending_witness:
  "claimedAndReady (exampleMethods (\<lambda>i. True) (\<lambda>i. False)) (examplePipeline False)
     (exampleJob False (\<lambda>i. True) ([exampleBuild 1 ''1'' False 0 False None], None))
     (schedulerBuild (exampleBuild 1 ''1'' False 0 False None)) [JobGetPendingBuilds]
   \<and> tryStartNextPendingBuild (exampleStarter None)
        (exampleMethods (\<lambda>i. True) (\<lambda>i. False)) (examplePipeline False)
        (schedulerBuild (exampleBuild 1 ''1'' False 0 False None))
        (exampleJob False (\<lambda>i. True) ([exampleBuild 1 ''1'' False 0 False None], None)) []
        [JobGetPendingBuilds]
      = ((\<lparr>aborted = False, scheduled = True, readyToDetermineInputs = True\<rparr>, None),
         [JobGetPendingBuilds, LoggerSession ''try-start-next-pending-build'' 1 ''1'',
          PipelineCheckPaused, JobScheduleBuild 1, BuildIsReadyToDetermineInputs 1,
          BuildBuildInputs 1, LoggerDebug ''build-inputs-not-found''])
   \<and> TryStartPendingBuildsForJob (exampleStarter None)
        (exampleMethods (\<lambda>i. True) (\<lambda>i. False)) (\<lambda>r. False) (examplePipeline False)
        (exampleJob False (\<lambda>i. True) ([exampleBuild 1 ''1'' False 0 False None], None)) [] []
      = ((False, None),
         [JobGetPendingBuilds, LoggerSession ''try-start-next-pending-build'' 1 ''1'',
          PipelineCheckPaused, JobScheduleBuild 1, BuildIsReadyToDetermineInputs 1,
          BuildBuildInputs 1, LoggerDebug ''build-inputs-not-found''])"
proof -
  let ?d = "exampleBuild 1 ''1'' False 0 False None"
  let ?job = "exampleJob False (\<lambda>i. True) ([?d], None)"
  let ?m = "exampleMethods (\<lambda>i. True) (\<lambda>i. False)"
  have 1: "claimedAndReady ?m (examplePipeline False) ?job (schedulerBuild ?d) [JobGetPendingBuilds]"
    by (simp add: claimedAndReady_def claimed_def reachesClaim_def examples)
  have 2: "snd (BuildInputs ?m (schedulerBuild ?d)
      (atBuildInputs [JobGetPendingBuilds] (schedulerBuild ?d))) = (False, None)"
    by (simp add: exampleMethods_def)
  have g: "GetPendingBuilds ?job [] = ([?d], None)"
    by (simp add: exampleJob_def)
  have w: "constructBuilds [?d] = [schedulerBuild ?d]"
    by (simp add: constructBuilds_def wrapBuild_def exampleBuild_def)
  note u = unsatisfiable_inputs_leave_build_pending
         [OF 1 2, where s = "exampleStarter None" and resources = "[]"
            and needsRetry = "\<lambda>r. False" and rest = "[]"]
  have t: "TryStartPendingBuildsForJob (exampleStarter None) ?m (\<lambda>r. False)
      (examplePipeline False) ?job [] [] =
      ((False, None),
       snd (tryStartNextPendingBuild (exampleStarter None) ?m (examplePipeline False)
              (schedulerBuild ?d) ?job [] [JobGetPendingBuilds]))"
    using u by (simp add: tick_unfold [OF g] w)
  have v: "tryStartNextPendingBuild (exampleStarter None) ?m (examplePipeline False)
        (schedulerBuild ?d) ?job [] [JobGetPendingBuilds]
      = ((\<lparr>aborted = False, scheduled = True, readyToDetermineInputs = True\<rparr>, None),
         [JobGetPendingBuilds, LoggerSession ''try-start-next-pending-build'' 1 ''1'',
          PipelineCheckPaused, JobScheduleBuild 1, BuildIsReadyToDetermineInputs 1,
          BuildBuildInputs 1, LoggerDebug ''build-inputs-not-found''])"
    using u by (simp add: session_def exampleBuild_def zeroResults_def)
  from 1 show ?thesis
    by (simp add: t v)
qed

text \<open>
  C8. For a build whose evaluation reaches the plan compiler and whose plan compilation
  fails, the evaluation makes exactly one status write, \<open>Finish\<close> with
  \<open>BuildStatusErrored\<close>, and returns the zero result. When that write succeeds the error is
  nil and the loop stops at line 95 with \<open>(true, nil)\<close>, evaluating no later build. When
  that write fails the error is \<open>finish build: ...\<close> and the loop returns it at line 87,
  again evaluating no later build.
\<close>

theorem compile_failure_errors_the_build_once:
  assumes "reachesCompile m pipeline job b h"
    and "snd (planCompilation s m pipeline b job resources h) = Some e"
  shows
    "length (filter writesStatus
       (eventsSince h (snd (tryStartNextPendingBuild s m pipeline b job resources h)))) = 1
     \<and> list_ex (\<lambda>ev. ev = BuildFinish (ID (dbBuild b)) BuildStatusErrored)
         (eventsSince h (snd (tryStartNextPendingBuild s m pipeline b job resources h)))
     \<and> fst (fst (tryStartNextPendingBuild s m pipeline b job resources h)) = zeroResults
     \<and> (Finish (dbBuild b) (atFinishErrored h b e) BuildStatusErrored = None \<longrightarrow>
          tryStartNextPendingBuild s m pipeline b job resources h =
            ((zeroResults, None),
             atFinishErrored h b e @ [BuildFinish (ID (dbBuild b)) BuildStatusErrored])
          \<and> dispatchLoop s m needsRetry pipeline job resources (b # rest) h =
            (Some (Line95, True, None),
             atFinishErrored h b e @ [BuildFinish (ID (dbBuild b)) BuildStatusErrored]))
     \<and> (\<forall>e'. Finish (dbBuild b) (atFinishErrored h b e) BuildStatusErrored = Some e' \<longrightarrow>
          snd (fst (tryStartNextPendingBuild s m pipeline b job resources h)) =
            Some (Errorf ''finish build'' e')
          \<and> dispatchLoop s m needsRetry pipeline job resources (b # rest) h =
            (Some (Line87, False, Some (Errorf ''finish build'' e')),
             atFinishErrored h b e @ [BuildFinish (ID (dbBuild b)) BuildStatusErrored,
                                       LoggerError ''failed-to-mark-build-as-errored'' e']))"
proof (cases "Finish (dbBuild b) (atFinishErrored h b e) BuildStatusErrored")
  case None
  have t: "tryStartNextPendingBuild s m pipeline b job resources h =
      ((zeroResults, None),
       atFinishErrored h b e @ [BuildFinish (ID (dbBuild b)) BuildStatusErrored])"
    using tryStart_compile_failed [OF assms] None by simp
  have l: "dispatchLoop s m needsRetry pipeline job resources (b # rest) h =
      (Some (Line95, True, None),
       atFinishErrored h b e @ [BuildFinish (ID (dbBuild b)) BuildStatusErrored])"
    by (rule dispatchLoop_stop [OF t]) (simp_all add: zeroResults_def)
  have ev: "eventsSince h (atFinishErrored h b e @ [BuildFinish (ID (dbBuild b)) BuildStatusErrored])
      = [session b, PipelineCheckPaused, JobScheduleBuild (ID (dbBuild b)),
         BuildIsReadyToDetermineInputs (ID (dbBuild b)), BuildBuildInputs (ID (dbBuild b)),
         PipelineResourceTypes, JobConfig, FactoryCreate (ID (dbBuild b)),
         LoggerError ''failed-to-create-build-plan'' e,
         BuildFinish (ID (dbBuild b)) BuildStatusErrored]"
    by (simp add: eventsSince_def atFinishErrored_def atCreate_def atConfig_def
          atResourceTypes_def atBuildInputs_def atIsReady_def atScheduleBuild_def
          atCheckPaused_def)
  show ?thesis
    using None l by (simp add: t ev eventKinds session_def)
next
  case (Some e')
  have t: "tryStartNextPendingBuild s m pipeline b job resources h =
      ((zeroResults, Some (Errorf ''finish build'' e')),
       atFinishErrored h b e @ [BuildFinish (ID (dbBuild b)) BuildStatusErrored,
                                 LoggerError ''failed-to-mark-build-as-errored'' e'])"
    using tryStart_compile_failed [OF assms] Some by simp
  have l: "dispatchLoop s m needsRetry pipeline job resources (b # rest) h =
      (Some (Line87, False, Some (Errorf ''finish build'' e')),
       atFinishErrored h b e @ [BuildFinish (ID (dbBuild b)) BuildStatusErrored,
                                 LoggerError ''failed-to-mark-build-as-errored'' e'])"
    by (simp add: t)
  have ev: "eventsSince h (atFinishErrored h b e @ [BuildFinish (ID (dbBuild b)) BuildStatusErrored,
                                 LoggerError ''failed-to-mark-build-as-errored'' e'])
      = [session b, PipelineCheckPaused, JobScheduleBuild (ID (dbBuild b)),
         BuildIsReadyToDetermineInputs (ID (dbBuild b)), BuildBuildInputs (ID (dbBuild b)),
         PipelineResourceTypes, JobConfig, FactoryCreate (ID (dbBuild b)),
         LoggerError ''failed-to-create-build-plan'' e,
         BuildFinish (ID (dbBuild b)) BuildStatusErrored,
         LoggerError ''failed-to-mark-build-as-errored'' e']"
    by (simp add: eventsSince_def atFinishErrored_def atCreate_def atConfig_def
          atResourceTypes_def atBuildInputs_def atIsReady_def atScheduleBuild_def
          atCheckPaused_def)
  show ?thesis
    using Some l by (simp add: t ev eventKinds session_def)
qed


theorem compile_failure_errors_the_build_once_witness:
  "reachesCompile (exampleMethods (\<lambda>i. True) (\<lambda>i. True)) (examplePipeline False)
     (exampleJob False (\<lambda>i. True) ([], None))
     (schedulerBuild (exampleBuild 1 ''1'' False 0 False None)) []
   \<and> snd (planCompilation (exampleStarter (Some (Failure ''invalid plan'')))
            (exampleMethods (\<lambda>i. True) (\<lambda>i. True)) (examplePipeline False)
            (schedulerBuild (exampleBuild 1 ''1'' False 0 False None))
            (exampleJob False (\<lambda>i. True) ([], None)) [] [])
       = Some (Failure ''invalid plan'')
   \<and> dispatchLoop (exampleStarter (Some (Failure ''invalid plan'')))
        (exampleMethods (\<lambda>i. True) (\<lambda>i. True)) (\<lambda>r. False) (examplePipeline False)
        (exampleJob False (\<lambda>i. True) ([], None)) []
        [schedulerBuild (exampleBuild 1 ''1'' False 0 False None),
         schedulerBuild (exampleBuild 2 ''2'' False 0 False None)] []
      = (Some (Line95, True, None),
         [LoggerSession ''try-start-next-pending-build'' 1 ''1'', PipelineCheckPaused,
          JobScheduleBuild 1, BuildIsReadyToDetermineInputs 1, BuildBuildInputs 1,
          PipelineResourceTypes, JobConfig, FactoryCreate 1,
          LoggerError ''failed-to-create-build-plan'' (Failure ''invalid plan''),
          BuildFinish 1 BuildStatusErrored])"
proof -
  let ?b = "schedulerBuild (exampleBuild 1 ''1'' False 0 False None)"
  let ?m = "exampleMethods (\<lambda>i. True) (\<lambda>i. True)"
  let ?job = "exampleJob False (\<lambda>i. True) ([], None)"
  let ?s = "exampleStarter (Some (Failure ''invalid plan''))"
  have 1: "reachesCompile ?m (examplePipeline False) ?job ?b []"
    by (simp add: reachesCompile_def claimedAndReady_def claimed_def reachesClaim_def examples)
  have 2: "snd (planCompilation ?s ?m (examplePipeline False) ?b ?job [] [])
      = Some (Failure ''invalid plan'')"
    by (simp add: planCompilation_def exampleStarter_def)
  have 3: "Finish (dbBuild ?b) (atFinishErrored [] ?b (Failure ''invalid plan''))
      BuildStatusErrored = None"
    by (simp add: exampleBuild_def)
  from compile_failure_errors_the_build_once
         [OF 1 2, where needsRetry = "\<lambda>r. False"
            and rest = "[schedulerBuild (exampleBuild 2 ''2'' False 0 False None)]"] 3
  have "dispatchLoop ?s ?m (\<lambda>r. False) (examplePipeline False) ?job []
      [?b, schedulerBuild (exampleBuild 2 ''2'' False 0 False None)] []
    = (Some (Line95, True, None),
       atFinishErrored [] ?b (Failure ''invalid plan'')
         @ [BuildFinish (ID (dbBuild ?b)) BuildStatusErrored])"
    by (simp del: dispatchLoop.simps)
  with 1 2 show ?thesis
    by (simp add: programPoints exampleBuild_def del: dispatchLoop.simps)
qed

text \<open>
  C8 as first stated, with a nil error for every failed compilation, fails: when the
  compilation fails and the write of the errored status fails too, the evaluation and the
  tick both return the error of the write.
\<close>

theorem compile_failure_with_failed_finish_counterexample:
  "snd (planCompilation (exampleStarter (Some (Failure ''invalid plan'')))
          (exampleMethods (\<lambda>i. True) (\<lambda>i. True)) (examplePipeline False)
          (schedulerBuild
            (exampleBuild 1 ''1'' False 0 False (Some (Failure ''storage unreachable''))))
          (exampleJob False (\<lambda>i. True)
            ([exampleBuild 1 ''1'' False 0 False (Some (Failure ''storage unreachable''))],
             None))
          [] [JobGetPendingBuilds])
     = Some (Failure ''invalid plan'')
   \<and> fst (tryStartNextPendingBuild (exampleStarter (Some (Failure ''invalid plan'')))
          (exampleMethods (\<lambda>i. True) (\<lambda>i. True)) (examplePipeline False)
          (schedulerBuild
            (exampleBuild 1 ''1'' False 0 False (Some (Failure ''storage unreachable''))))
          (exampleJob False (\<lambda>i. True)
            ([exampleBuild 1 ''1'' False 0 False (Some (Failure ''storage unreachable''))],
             None))
          [] [JobGetPendingBuilds])
     = (\<lparr>aborted = False, scheduled = False, readyToDetermineInputs = False\<rparr>,
        Some (Errorf ''finish build'' (Failure ''storage unreachable'')))
   \<and> fst (TryStartPendingBuildsForJob (exampleStarter (Some (Failure ''invalid plan'')))
          (exampleMethods (\<lambda>i. True) (\<lambda>i. True)) (\<lambda>r. False) (examplePipeline False)
          (exampleJob False (\<lambda>i. True)
            ([exampleBuild 1 ''1'' False 0 False (Some (Failure ''storage unreachable''))],
             None))
          [] [])
     = (False, Some (Errorf ''finish build'' (Failure ''storage unreachable'')))"
  by (simp add: TryStartPendingBuildsForJob_def constructBuilds_def wrapBuild_def
        tryStartNextPendingBuild_def planCompilation_def Let_def examples zeroResults_def)

text \<open>
  C9. Whenever \<open>TryStartPendingBuildsForJob\<close> returns a non-nil error, the \<open>needsRetry\<close>
  boolean it returns is false, for every list of pending builds and whatever the
  collaborators answer.
\<close>

theorem error_never_comes_with_retry:
  assumes "snd (fst (TryStartPendingBuildsForJob s m needsRetry pipeline job resources h)) \<noteq> None"
  shows "fst (fst (TryStartPendingBuildsForJob s m needsRetry pipeline job resources h)) = False"
proof -
  obtain pending err where g: "GetPendingBuilds job h = (pending, err)"
    by (cases "GetPendingBuilds job h")
  show ?thesis
  proof (cases err)
    case (Some e)
    with g show ?thesis by (simp add: TryStartPendingBuildsForJob_def)
  next
    case None
    obtain out h' where l:
      "dispatchLoop s m needsRetry pipeline job resources (constructBuilds pending)
         (h @ [JobGetPendingBuilds]) = (out, h')"
      by (cases "dispatchLoop s m needsRetry pipeline job resources (constructBuilds pending)
         (h @ [JobGetPendingBuilds])")
    show ?thesis
    proof (cases out)
      case None
      with g \<open>err = None\<close> l show ?thesis by (simp add: tick_unfold)
    next
      case (Some r)
      obtain site retry e where r: "r = (site, retry, e)" by (cases r)
      with g \<open>err = None\<close> l Some assms have "e \<noteq> None" by (simp add: tick_unfold)
      then obtain e' where "e = Some e'" by auto
      with l Some r have "\<not> retry" by (auto dest: dispatchLoop_error_without_retry)
      with g \<open>err = None\<close> l Some r show ?thesis by (simp add: tick_unfold)
    qed
  qed
qed

theorem error_never_comes_with_retry_witness:
  "snd (fst (TryStartPendingBuildsForJob (exampleStarter None)
              (exampleMethods (\<lambda>i. True) (\<lambda>i. True)) (\<lambda>r. True) (examplePipeline False)
              (exampleJob False (\<lambda>i. True)
                 ([exampleBuild 1 ''1'' False 0 True (Some (Failure ''storage unreachable''))],
                  None)) [] []))
     = Some (Errorf ''finish aborted build'' (Failure ''storage unreachable''))
   \<and> fst (fst (TryStartPendingBuildsForJob (exampleStarter None)
              (exampleMethods (\<lambda>i. True) (\<lambda>i. True)) (\<lambda>r. True) (examplePipeline False)
              (exampleJob False (\<lambda>i. True)
                 ([exampleBuild 1 ''1'' False 0 True (Some (Failure ''storage unreachable''))],
                  None)) [] []))
     = False"
proof -
  let ?t = "TryStartPendingBuildsForJob (exampleStarter None)
              (exampleMethods (\<lambda>i. True) (\<lambda>i. True)) (\<lambda>r. True) (examplePipeline False)
              (exampleJob False (\<lambda>i. True)
                 ([exampleBuild 1 ''1'' False 0 True (Some (Failure ''storage unreachable''))],
                  None)) [] []"
  have e: "snd (fst ?t) = Some (Errorf ''finish aborted build'' (Failure ''storage unreachable''))"
    by (simp add: TryStartPendingBuildsForJob_def constructBuilds_def wrapBuild_def
          tryStartNextPendingBuild_def Let_def examples)
  then have "snd (fst ?t) \<noteq> None" by simp
  from error_never_comes_with_retry [OF this] e show ?thesis by simp
qed

text \<open>
  C2. The return at line 100, guarded by \<open>scheduled\<close>, not \<open>readyToDetermineInputs\<close> and
  \<open>RerunOf() == 0\<close>, is unreachable: the loop never leaves through it. Any result the
  evaluation of a build returns without error with \<open>scheduled\<close> true and
  \<open>readyToDetermineInputs\<close> false makes the loop return \<open>(true, nil)\<close> at line 95, before
  that guard is tested. So the tick does not depend on what the undeclared field
  \<open>needsRetry\<close> would hold.
\<close>

theorem rerun_exception_branch_is_unreachable:
  "map_option fst (fst (dispatchLoop s m needsRetry pipeline job resources builds h))
     \<noteq> Some Line100
   \<and> (\<forall>results h'.
        tryStartNextPendingBuild s m pipeline b job resources h = ((results, None), h')
        \<longrightarrow> scheduled results \<longrightarrow> \<not> readyToDetermineInputs results
        \<longrightarrow> dispatchLoop s m needsRetry pipeline job resources (b # rest) h =
              (Some (Line95, True, None), h'))
   \<and> TryStartPendingBuildsForJob s m needsRetry pipeline job resources h =
     TryStartPendingBuildsForJob s m needsRetry' pipeline job resources h"
proof -
  have 1: "map_option fst (fst (dispatchLoop s m needsRetry pipeline job resources builds h))
     \<noteq> Some Line100"
  proof
    assume a: "map_option fst (fst (dispatchLoop s m needsRetry pipeline job resources builds h))
      = Some Line100"
    obtain out h' where l:
      "dispatchLoop s m needsRetry pipeline job resources builds h = (out, h')"
      by (cases "dispatchLoop s m needsRetry pipeline job resources builds h")
    with a obtain r where "out = Some (Line100, r)" by auto
    with l show False by (simp add: dispatchLoop_never_Line100)
  qed
  have 2: "dispatchLoop s m needsRetry pipeline job resources (b # rest) h =
      (Some (Line95, True, None), h')"
    if t: "tryStartNextPendingBuild s m pipeline b job resources h = ((results, None), h')"
      and "scheduled results" and n: "\<not> readyToDetermineInputs results"
    for results h'
  proof -
    have "\<not> aborted results"
      using tryStart_aborted_result [OF t] \<open>scheduled results\<close> by blast
    with n show ?thesis by (intro dispatchLoop_stop [OF t]) simp_all
  qed
  have 3: "TryStartPendingBuildsForJob s m needsRetry pipeline job resources h =
     TryStartPendingBuildsForJob s m needsRetry' pipeline job resources h"
    unfolding TryStartPendingBuildsForJob_def
      dispatchLoop_needsRetry_irrelevant [of s m needsRetry _ _ _ _ _ needsRetry']
    by (rule refl)
  from 1 2 3 show ?thesis by blast
qed


theorem rerun_exception_branch_is_unreachable_witness:
  "tryStartNextPendingBuild (exampleStarter None) (exampleMethods (\<lambda>i. False) (\<lambda>i. True))
     (examplePipeline False) (schedulerBuild (exampleBuild 1 ''1'' False 0 False None))
     (exampleJob False (\<lambda>i. True) ([], None)) [] []
   = ((\<lparr>aborted = False, scheduled = True, readyToDetermineInputs = False\<rparr>, None),
      [LoggerSession ''try-start-next-pending-build'' 1 ''1'', PipelineCheckPaused,
       JobScheduleBuild 1, BuildIsReadyToDetermineInputs 1])
   \<and> RerunOf (dbBuild (schedulerBuild (exampleBuild 1 ''1'' False 0 False None))) = 0
   \<and> dispatchLoop (exampleStarter None) (exampleMethods (\<lambda>i. False) (\<lambda>i. True)) (\<lambda>r. False)
       (examplePipeline False) (exampleJob False (\<lambda>i. True) ([], None)) []
       [schedulerBuild (exampleBuild 1 ''1'' False 0 False None),
        schedulerBuild (exampleBuild 2 ''2'' False 0 False None)] []
   = (Some (Line95, True, None),
      [LoggerSession ''try-start-next-pending-build'' 1 ''1'', PipelineCheckPaused,
       JobScheduleBuild 1, BuildIsReadyToDetermineInputs 1])"
proof -
  let ?b = "schedulerBuild (exampleBuild 1 ''1'' False 0 False None)"
  let ?m = "exampleMethods (\<lambda>i. False) (\<lambda>i. True)"
  let ?job = "exampleJob False (\<lambda>i. True) ([], None)"
  let ?h = "[LoggerSession ''try-start-next-pending-build'' 1 ''1'', PipelineCheckPaused,
       JobScheduleBuild 1, BuildIsReadyToDetermineInputs 1]"
  have t: "tryStartNextPendingBuild (exampleStarter None) ?m (examplePipeline False) ?b ?job [] []
      = ((\<lparr>aborted = False, scheduled = True, readyToDetermineInputs = False\<rparr>, None), ?h)"
    by (simp add: tryStartNextPendingBuild_def Let_def examples zeroResults_def)
  have z: "RerunOf (dbBuild ?b) = 0"
    by (simp add: exampleBuild_def)
  note u = rerun_exception_branch_is_unreachable
    [where s = "exampleStarter None" and m = ?m and needsRetry = "\<lambda>r. False"
       and pipeline = "examplePipeline False" and job = ?job and resources = "[]"
       and builds = "[]" and h = "[]" and b = ?b
       and rest = "[schedulerBuild (exampleBuild 2 ''2'' False 0 False None)]"
       and needsRetry' = "\<lambda>r. True"]
  from u have "\<forall>results h'.
        tryStartNextPendingBuild (exampleStarter None) ?m (examplePipeline False) ?b ?job [] []
          = ((results, None), h')
        \<longrightarrow> scheduled results \<longrightarrow> \<not> readyToDetermineInputs results
        \<longrightarrow> dispatchLoop (exampleStarter None) ?m (\<lambda>r. False) (examplePipeline False) ?job []
              [?b, schedulerBuild (exampleBuild 2 ''2'' False 0 False None)] [] =
              (Some (Line95, True, None), h')"
    by (rule conjunct1 [OF conjunct2])
  from this [rule_format, OF t] t z show ?thesis
    by (simp del: dispatchLoop.simps)
qed

end
